theory Spec2Isabelle
  imports Complex_Main "HOL-Library.Sublist" "HOL-Library.Multiset"
begin

section \<open>Red Lake Forest Watch: the satellite change-detection pipeline\<close>

text \<open>
  A shallow embedding of \<^verbatim>\<open>satellite_processor.py\<close>. Python ints are \<open>int\<close>,
  Python floats are idealised as \<open>real\<close> (exact arithmetic, no rounding error, no NaN),
  strings are \<open>string\<close>, exceptions are values of the type \<open>error\<close>, and everything the
  script does to the outside (console, imagery catalogue, vectorisation service, file
  system, clock) is threaded through an explicit \<open>world\<close> record.
\<close>

datatype error =
    OverflowError
  | ValueError
  | JSONDecodeError
  | KeyError
  | IndexError
  | TypeError

subsection \<open>The part of Python's \<^verbatim>\<open>datetime\<close> module the script uses\<close>

text \<open>
  \<^verbatim>\<open>datetime.py\<close> counts days in the proleptic Gregorian calendar, 1 January of year 1
  being day 1. The helper functions are transcribed from the library; the leading
  underscore of their names is dropped.
\<close>

record datetime =
  year :: int
  month :: int
  day :: int
  hour :: int
  minute :: int
  second :: int
  microsecond :: int

definition MAXORDINAL :: int where
  "MAXORDINAL = 3652059"

definition DAYS_IN_MONTH :: "int list" where
  "DAYS_IN_MONTH = [-1, 31, 28, 31, 30, 31, 30, 31, 31, 30, 31, 30, 31]"

definition DAYS_BEFORE_MONTH :: "int list" where
  "DAYS_BEFORE_MONTH = [-1, 0, 31, 59, 90, 120, 151, 181, 212, 243, 273, 304, 334]"

definition is_leap :: "int \<Rightarrow> bool" where
  "is_leap y \<longleftrightarrow> y mod 4 = 0 \<and> (y mod 100 \<noteq> 0 \<or> y mod 400 = 0)"

definition days_before_year :: "int \<Rightarrow> int" where
  "days_before_year yr = (let y = yr - 1 in y * 365 + y div 4 - y div 100 + y div 400)"

definition days_in_month :: "int \<Rightarrow> int \<Rightarrow> int" where
  "days_in_month y m = (if m = 2 \<and> is_leap y then 29 else DAYS_IN_MONTH ! nat m)"

definition days_before_month :: "int \<Rightarrow> int \<Rightarrow> int" where
  "days_before_month y m =
     DAYS_BEFORE_MONTH ! nat m + (if m > 2 \<and> is_leap y then 1 else 0)"

definition ymd2ord :: "int \<Rightarrow> int \<Rightarrow> int \<Rightarrow> int" where
  "ymd2ord y m d = days_before_year y + days_before_month y m + d"

definition DI400Y :: int where "DI400Y = 146097"
definition DI100Y :: int where "DI100Y = 36524"
definition DI4Y :: int where "DI4Y = 1461"

definition ord2ymd :: "int \<Rightarrow> int \<times> int \<times> int" where
  "ord2ymd n0 =
    (let n = n0 - 1;
         n400 = n div DI400Y; n = n mod DI400Y;
         yr = n400 * 400 + 1;
         n100 = n div DI100Y; n = n mod DI100Y;
         n4 = n div DI4Y; n = n mod DI4Y;
         n1 = n div 365; n = n mod 365;
         yr = yr + (n100 * 100 + n4 * 4 + n1)
     in if n1 = 4 \<or> n100 = 4 then (yr - 1, 12, 31)
        else
          let leapyear = (n1 = 3 \<and> (n4 \<noteq> 24 \<or> n100 = 3));
              mo = (n + 50) div 32;
              preceding = DAYS_BEFORE_MONTH ! nat mo + (if mo > 2 \<and> leapyear then 1 else 0)
          in if preceding > n
             then let mo' = mo - 1;
                      preceding' = preceding
                        - (DAYS_IN_MONTH ! nat mo' + (if mo' = 2 \<and> leapyear then 1 else 0))
                  in (yr, mo', n - preceding' + 1)
             else (yr, mo, n - preceding + 1))"

text \<open>The values the \<^verbatim>\<open>datetime\<close> constructor accepts.\<close>

definition valid_datetime :: "datetime \<Rightarrow> bool" where
  "valid_datetime t \<longleftrightarrow>
     1 \<le> year t \<and> year t \<le> 9999 \<and> 1 \<le> month t \<and> month t \<le> 12 \<and>
     1 \<le> day t \<and> day t \<le> days_in_month (year t) (month t) \<and>
     0 \<le> hour t \<and> hour t < 24 \<and> 0 \<le> minute t \<and> minute t < 60 \<and>
     0 \<le> second t \<and> second t < 60 \<and> 0 \<le> microsecond t \<and> microsecond t < 1000000"

definition toordinal :: "datetime \<Rightarrow> int" where
  "toordinal t = ymd2ord (year t) (month t) (day t)"

text \<open>\<^verbatim>\<open>date.fromordinal(n)\<close>, at midnight.\<close>

definition fromordinal :: "int \<Rightarrow> datetime" where
  "fromordinal n =
     (case ord2ymd n of
        (y, m, d) \<Rightarrow> \<lparr>year = y, month = m, day = d, hour = 0, minute = 0, second = 0, microsecond = 0\<rparr>)"

text \<open>
  \<^verbatim>\<open>t - timedelta(days=n)\<close>: building the \<^verbatim>\<open>timedelta\<close> raises OverflowError beyond
  999999999 days, the subtraction raises it when the resulting day number leaves
  \<open>1 .. MAXORDINAL\<close>. The result combines the date of that day number with the time of
  day of \<open>t\<close>.
\<close>

definition sub_days :: "datetime \<Rightarrow> int \<Rightarrow> error + datetime" where
  "sub_days t n =
     (if \<bar>n\<bar> > 999999999 then Inl OverflowError
      else let d = toordinal t - n
           in if 0 < d \<and> d \<le> MAXORDINAL
              then Inr ((fromordinal d)\<lparr>hour := hour t, minute := minute t, second := second t,
                                        microsecond := microsecond t\<rparr>)
              else Inl OverflowError)"

text \<open>The day numbers of the dates a \<^verbatim>\<open>datetime\<close> can hold.\<close>

definition in_range :: "int \<Rightarrow> bool" where
  "in_range n \<longleftrightarrow> 1 \<le> n \<and> n \<le> MAXORDINAL"

subsubsection \<open>Decimal rendering\<close>

definition digit_char :: "nat \<Rightarrow> char" where
  "digit_char d = ''0123456789'' ! d"

fun str_nat :: "nat \<Rightarrow> string" where
  "str_nat n = (if n < 10 then [digit_char n] else str_nat (n div 10) @ [digit_char (n mod 10)])"

declare str_nat.simps [simp del]

text \<open>\<^verbatim>\<open>'%0wd' % n\<close> for a non-negative \<open>n\<close>: zero padding on the left up to width \<open>w\<close>.\<close>

definition zero_pad :: "nat \<Rightarrow> int \<Rightarrow> string" where
  "zero_pad w n = (let s = str_nat (nat n) in replicate (w - length s) CHR ''0'' @ s)"

text \<open>
  \<^verbatim>\<open>t.strftime('%Y-%m-%d')\<close>. The year is written with four digits; C libraries differ
  on padding for years below 1000, which no date of the supported satellite record reaches.
\<close>

definition strftime_ymd :: "datetime \<Rightarrow> string" where
  "strftime_ymd t = zero_pad 4 (year t) @ ''-'' @ zero_pad 2 (month t) @ ''-'' @ zero_pad 2 (day t)"

text \<open>\<^verbatim>\<open>t.isoformat()\<close> of a naive datetime.\<close>

definition isoformat :: "datetime \<Rightarrow> string" where
  "isoformat t =
     zero_pad 4 (year t) @ ''-'' @ zero_pad 2 (month t) @ ''-'' @ zero_pad 2 (day t) @ ''T'' @
     zero_pad 2 (hour t) @ '':'' @ zero_pad 2 (minute t) @ '':'' @ zero_pad 2 (second t) @
     (if microsecond t \<noteq> 0 then ''.'' @ zero_pad 6 (microsecond t) else [])"

subsubsection \<open>Parsing a date string\<close>

text \<open>
  \<^verbatim>\<open>datetime.strptime(s, '%Y-%m-%d')\<close>. The library matches \<open>s\<close> against the regular
  expression \<^verbatim>\<open>\d\d\d\d-(1[0-2]|0[1-9]|[1-9])-(3[0-1]|[1-2]\d|0[1-9]|[1-9]| [1-9])\<close>,
  requires that the match consumes all of \<open>s\<close>, and then builds the date, which checks the
  day against the month. Every failure is a ValueError. Strings are byte strings here, so
  only ASCII digits are covered.
\<close>

definition is_digit :: "char \<Rightarrow> bool" where
  "is_digit c \<longleftrightarrow> c \<in> set ''0123456789''"

definition digit_val :: "char \<Rightarrow> int" where
  "digit_val c = int (of_char c) - 48"

fun match_Y :: "string \<Rightarrow> (int \<times> string) option" where
  "match_Y (a # b # c # d # rest) =
     (if is_digit a \<and> is_digit b \<and> is_digit c \<and> is_digit d
      then Some (1000 * digit_val a + 100 * digit_val b + 10 * digit_val c + digit_val d, rest)
      else None)"
| "match_Y _ = None"

fun match_lit :: "char \<Rightarrow> string \<Rightarrow> string option" where
  "match_lit c (a # rest) = (if a = c then Some rest else None)"
| "match_lit c [] = None"

text \<open>
  The month group is followed by a literal \<open>-\<close>. When a two-character alternative matches
  and no \<open>-\<close> follows, the one-character alternative leaves a digit before the \<open>-\<close> and
  fails too, so taking the first alternative that matches loses nothing.
\<close>

fun match_m :: "string \<Rightarrow> (int \<times> string) option" where
  "match_m (a # b # rest) =
     (if a = CHR ''1'' \<and> b \<in> set ''012'' then Some (10 + digit_val b, rest)
      else if a = CHR ''0'' \<and> b \<in> set ''123456789'' then Some (digit_val b, rest)
      else if a \<in> set ''123456789'' then Some (digit_val a, b # rest)
      else None)"
| "match_m [a] = (if a \<in> set ''123456789'' then Some (digit_val a, []) else None)"
| "match_m [] = None"

text \<open>The day group ends the expression: the first alternative that matches decides.\<close>

fun match_d :: "string \<Rightarrow> (int \<times> string) option" where
  "match_d (a # b # rest) =
     (if a = CHR ''3'' \<and> b \<in> set ''01'' then Some (30 + digit_val b, rest)
      else if a \<in> set ''12'' \<and> is_digit b then Some (10 * digit_val a + digit_val b, rest)
      else if a = CHR ''0'' \<and> b \<in> set ''123456789'' then Some (digit_val b, rest)
      else if a \<in> set ''123456789'' then Some (digit_val a, b # rest)
      else if a = CHR '' '' \<and> b \<in> set ''123456789'' then Some (digit_val b, rest)
      else None)"
| "match_d [a] = (if a \<in> set ''123456789'' then Some (digit_val a, []) else None)"
| "match_d [] = None"

definition build_date :: "int \<Rightarrow> int \<Rightarrow> int \<Rightarrow> error + datetime" where
  "build_date y m d =
     (if 1 \<le> y \<and> d \<le> days_in_month y m
      then Inr \<lparr>year = y, month = m, day = d, hour = 0, minute = 0, second = 0, microsecond = 0\<rparr>
      else Inl ValueError)"

definition strptime_ymd :: "string \<Rightarrow> error + datetime" where
  "strptime_ymd s =
     (case match_Y s of
        None \<Rightarrow> Inl ValueError
      | Some (y, s1) \<Rightarrow>
         (case match_lit CHR ''-'' s1 of
            None \<Rightarrow> Inl ValueError
          | Some s2 \<Rightarrow>
             (case match_m s2 of
                None \<Rightarrow> Inl ValueError
              | Some (m, s3) \<Rightarrow>
                 (case match_lit CHR ''-'' s3 of
                    None \<Rightarrow> Inl ValueError
                  | Some s4 \<Rightarrow>
                     (case match_d s4 of
                        None \<Rightarrow> Inl ValueError
                      | Some (d, s5) \<Rightarrow>
                          if s5 \<noteq> [] then Inl ValueError else build_date y m d)))))"

text \<open>
  The month and day block of \<open>ord2ymd\<close> on its own, for the proofs: the estimate
  \<open>(n + 50) >> 5\<close> of the month and its correction.
\<close>

definition md_of :: "int \<Rightarrow> bool \<Rightarrow> int \<times> int" where
  "md_of n leapyear =
     (let mo = (n + 50) div 32;
          preceding = DAYS_BEFORE_MONTH ! nat mo + (if mo > 2 \<and> leapyear then 1 else 0)
      in if preceding > n
         then let mo' = mo - 1;
                  preceding' = preceding
                    - (DAYS_IN_MONTH ! nat mo' + (if mo' = 2 \<and> leapyear then 1 else 0))
              in (mo', n - preceding' + 1)
         else (mo, n - preceding + 1))"

subsection \<open>Configuration\<close>

text \<open>
  The module-level constants of the script. They are collected in a record so that
  statements can range over other settings; \<open>module_config\<close> holds the values of the source.
\<close>

record bounds =
  west :: real
  south :: real
  east :: real
  north :: real

record config =
  RED_LAKE_BOUNDS :: bounds
  NDVI_DECREASE_THRESHOLD :: real
  NDVI_INCREASE_THRESHOLD :: real
  MIN_AREA_ACRES :: real
  OUTPUT_DIR :: string

definition module_config :: config where
  "module_config =
     \<lparr>RED_LAKE_BOUNDS = \<lparr>west = -95.5, south = 47.1, east = -94.0, north = 48.3\<rparr>,
      NDVI_DECREASE_THRESHOLD = -0.15,
      NDVI_INCREASE_THRESHOLD = 0.10,
      MIN_AREA_ACRES = 2,
      OUTPUT_DIR = ''output''\<rparr>"

subsection \<open>Data\<close>

text \<open>A parsed JSON document; an object is the list of its key/value pairs.\<close>

datatype json =
    JNull
  | JBool bool
  | JNum real
  | JStr string
  | JArr "json list"
  | JObj "(string \<times> json) list"

text \<open>
  What a path names on disk. The content of a regular file is represented by what
  \<^verbatim>\<open>json.load\<close> makes of it: a document, or a decoding error.
\<close>

datatype fs_entry = Unparseable | Document json

text \<open>
  An \<^verbatim>\<open>ee.Geometry\<close>: built from a GeoJSON geometry, or \<^verbatim>\<open>ee.Geometry.Rectangle\<close> of
  west, south, east, north. Earth Engine's own validation of the GeoJSON is not modelled.
\<close>

datatype geometry = GeoJSON json | Rectangle "real list"

text \<open>
  A single-band image: the band's name and, for each pixel, its value, or \<open>None\<close> where
  the pixel is masked (no data). A comparison yields an image of ones and zeros.
\<close>

type_synonym pixel = "int \<times> int"

record raster =
  band :: string
  px :: "pixel \<Rightarrow> real option"

text \<open>The composite \<^verbatim>\<open>collection.median().clip(region)\<close>, kept symbolic.\<close>

datatype 'scene image = MedianClip "'scene list" geometry

text \<open>
  A polygon returned by the vectorisation, seen through the two queries the script makes
  on its geometry: \<^verbatim>\<open>geom.area().getInfo()\<close> (square metres) and
  \<^verbatim>\<open>geom.centroid().coordinates().getInfo()\<close> (longitude, latitude).
\<close>

record raw_feature =
  area_sqm :: real
  centroid :: "real \<times> real"

text \<open>
  An f-string with one float in it: the text before, the value (printed by Python's
  \<^verbatim>\<open>repr\<close>, which is not modelled), the text after.
\<close>

datatype fstring = FString string real string

record alert =
  alert_id :: string
  alert_type :: string
  severity :: string
  lat :: real
  lng :: real
  area_acres :: real
  date :: string
  description :: fstring

record change_results =
  baseline_ndvi :: raster
  current_ndvi :: raster
  ndvi_change :: raster
  damage_mask :: raster
  recovery_mask :: raster
  baseline_date :: string
  current_date :: string

text \<open>The document written by \<open>export_alerts_json\<close>.\<close>

record output_doc =
  generated :: string
  count :: nat
  alerts :: "alert list"

subsection \<open>The outside world\<close>

text \<open>
  Each line the script prints is one \<open>message\<close>; the decorations of the text (check marks,
  warning signs, blank lines) are left out and the interpolated values are kept.
\<close>

datatype message =
    Rule \<comment> \<open>fifty equals signs\<close>
  | Title \<comment> \<open>RED LAKE FOREST WATCH - Satellite Analysis\<close>
  | Connected \<comment> \<open>Connected to Google Earth Engine\<close>
  | AuthRequired \<comment> \<open>Earth Engine authentication required\<close>
  | RunAuthenticate \<comment> \<open>Run: earthengine authenticate\<close>
  | InitError string \<comment> \<open>Error: e\<close>
  | LoadingBoundary \<comment> \<open>Loading reservation boundary...\<close>
  | BoundingBoxWarning \<comment> \<open>Using bounding box approximation - load actual boundary for accuracy\<close>
  | RunningDetection \<comment> \<open>Running change detection...\<close>
  | AnalyzingChanges \<comment> \<open>Analyzing changes:\<close>
  | BaselineRange string string \<comment> \<open>Baseline: start to end\<close>
  | CurrentRange string string \<comment> \<open>Current: start to end\<close>
  | FetchingBaseline \<comment> \<open>Fetching baseline imagery...\<close>
  | FetchingCurrent \<comment> \<open>Fetching current imagery...\<close>
  | FoundImages nat string string \<comment> \<open>Found count Sentinel-2 images for start to end\<close>
  | InsufficientImagery \<comment> \<open>Insufficient imagery available\<close>
  | AnalysisFailed \<comment> \<open>Analysis failed - check imagery availability\<close>
  | ExtractingAreas \<comment> \<open>Extracting change areas...\<close>
  | FoundChanges nat \<comment> \<open>Found n significant changes\<close>
  | Exported nat string \<comment> \<open>Exported n alerts to path\<close>
  | AnalysisComplete \<comment> \<open>ANALYSIS COMPLETE\<close>
  | HighPriority nat
  | MediumPriority nat
  | RecoveryAreas nat
  | TopAlerts \<comment> \<open>Top alerts:\<close>
  | TopAlert string real real real \<comment> \<open>type: area acres at (lat, lng)\<close>

text \<open>A query to the image catalogue, and a call of the vectorisation.\<close>

record catalogue_query =
  q_region :: geometry
  q_start_date :: string
  q_end_date :: string
  q_cloud_max :: real

text \<open>The query \<open>detect_changes\<close> makes for a window, with the cloud ceiling of 20 percent.\<close>

definition query :: "geometry \<Rightarrow> string \<Rightarrow> string \<Rightarrow> catalogue_query" where
  "query region s e = \<lparr>q_region = region, q_start_date = s, q_end_date = e, q_cloud_max = 20\<rparr>"

record vector_call =
  v_mask :: raster
  v_geometry :: geometry
  v_scale :: real
  v_maxPixels :: real
  v_geometryType :: string

record world =
  console :: "message list"
  catalogue_log :: "catalogue_query list"
  vector_log :: "vector_call list"
  made_dirs :: "string list"
  written :: "(string \<times> output_doc) list"
  clock_reads :: nat

definition world0 :: world where
  "world0 = \<lparr>console = [], catalogue_log = [], vector_log = [], made_dirs = [],
             written = [], clock_reads = 0\<rparr>"

definition say :: "message \<Rightarrow> world \<Rightarrow> world" where
  "say m w = w\<lparr>console := console w @ [m]\<rparr>"

text \<open>
  The collaborators, as they answer during one run: whether \<^verbatim>\<open>ee.Initialize\<close> succeeds
  (\<open>Some e\<close> is the exception it raises), the clock at its successive readings, the file
  system, the scenes of the Sentinel-2 collection for a region, date range and cloud
  ceiling, the normalised difference of two bands of a composite, and the answer of
  \<^verbatim>\<open>reduceToVectors(...).getInfo()\<close> (\<open>None\<close> when it is empty or has no features entry).
\<close>

record 'scene env =
  ee_initialize :: "string option"
  now :: "nat \<Rightarrow> datetime"
  disk :: "string \<Rightarrow> fs_entry option"
  s2_scenes :: "geometry \<Rightarrow> string \<Rightarrow> string \<Rightarrow> real \<Rightarrow> 'scene list"
  normalizedDifference :: "'scene image \<Rightarrow> string \<Rightarrow> string \<Rightarrow> pixel \<Rightarrow> real option"
  reduceToVectors :: "raster \<Rightarrow> geometry \<Rightarrow> raw_feature list option"

subsection \<open>Earth Engine image algebra\<close>

definition rename :: "raster \<Rightarrow> string \<Rightarrow> raster" where
  "rename r name = r\<lparr>band := name\<rparr>"

text \<open>A pixel of the difference is masked where either operand is.\<close>

definition subtract :: "raster \<Rightarrow> raster \<Rightarrow> raster" where
  "subtract a b =
     \<lparr>band = band a,
      px = (\<lambda>p. case px a p of None \<Rightarrow> None
                 | Some x \<Rightarrow> (case px b p of None \<Rightarrow> None | Some y \<Rightarrow> Some (x - y)))\<rparr>"

definition lt :: "raster \<Rightarrow> real \<Rightarrow> raster" where
  "lt a t = \<lparr>band = band a, px = (\<lambda>p. map_option (\<lambda>x. if x < t then 1 else 0) (px a p))\<rparr>"

definition gt :: "raster \<Rightarrow> real \<Rightarrow> raster" where
  "gt a t = \<lparr>band = band a, px = (\<lambda>p. map_option (\<lambda>x. if x > t then 1 else 0) (px a p))\<rparr>"

definition selfMask :: "raster \<Rightarrow> raster" where
  "selfMask a =
     \<lparr>band = band a,
      px = (\<lambda>p. case px a p of None \<Rightarrow> None | Some v \<Rightarrow> if v \<noteq> 0 then Some v else None)\<rparr>"

subsection \<open>Initialisation and boundary loading\<close>

definition initialize_ee :: "'scene env \<Rightarrow> world \<Rightarrow> bool \<times> world" where
  "initialize_ee env w =
     (case ee_initialize env of
        None \<Rightarrow> (True, say Connected w)
      | Some e \<Rightarrow> (False, say (InitError e) (say RunAuthenticate (say AuthRequired w))))"

text \<open>Python's \<^verbatim>\<open>v[key]\<close> with a string key and \<^verbatim>\<open>v[0]\<close> on a parsed JSON value.\<close>

fun subscript_key :: "json \<Rightarrow> string \<Rightarrow> error + json" where
  "subscript_key (JObj kvs) k = (case map_of kvs k of None \<Rightarrow> Inl KeyError | Some v \<Rightarrow> Inr v)"
| "subscript_key _ k = Inl TypeError"

fun subscript_0 :: "json \<Rightarrow> error + json" where
  "subscript_0 (JArr []) = Inl IndexError"
| "subscript_0 (JArr (v # vs)) = Inr v"
| "subscript_0 (JObj kvs) = Inl KeyError"
| "subscript_0 (JStr []) = Inl IndexError"
| "subscript_0 (JStr (c # cs)) = Inr (JStr [c])"
| "subscript_0 _ = Inl TypeError"

text \<open>
  \<open>geojson_path\<close> is \<open>None\<close> or a string; the empty string is false as a condition, as
  \<open>None\<close> is. No exception is caught in the function.
\<close>

definition load_reservation_boundary ::
  "config \<Rightarrow> 'scene env \<Rightarrow> string option \<Rightarrow> world \<Rightarrow> (error + geometry) \<times> world" where
  "load_reservation_boundary cfg env geojson_path w =
     (if geojson_path \<noteq> None \<and> geojson_path \<noteq> Some [] \<and> disk env (the geojson_path) \<noteq> None
      then (case the (disk env (the geojson_path)) of
              Unparseable \<Rightarrow> (Inl JSONDecodeError, w)
            | Document geojson \<Rightarrow>
               (case subscript_key geojson ''features'' of
                  Inl e \<Rightarrow> (Inl e, w)
                | Inr features \<Rightarrow>
                   (case subscript_0 features of
                      Inl e \<Rightarrow> (Inl e, w)
                    | Inr f \<Rightarrow>
                       (case subscript_key f ''geometry'' of
                          Inl e \<Rightarrow> (Inl e, w)
                        | Inr g \<Rightarrow> (Inr (GeoJSON g), w)))))
      else (Inr (Rectangle [west (RED_LAKE_BOUNDS cfg), south (RED_LAKE_BOUNDS cfg),
                            east (RED_LAKE_BOUNDS cfg), north (RED_LAKE_BOUNDS cfg)]),
            say BoundingBoxWarning w))"

subsection \<open>Sentinel-2 retrieval and indices\<close>

definition get_sentinel2_image ::
  "'scene env \<Rightarrow> geometry \<Rightarrow> string \<Rightarrow> string \<Rightarrow> real \<Rightarrow> world
     \<Rightarrow> 'scene image option \<times> world" where
  "get_sentinel2_image env region start_date end_date cloud_max w =
     (let collection = s2_scenes env region start_date end_date cloud_max;
          w = w\<lparr>catalogue_log := catalogue_log w @
                 [\<lparr>q_region = region, q_start_date = start_date, q_end_date = end_date,
                   q_cloud_max = cloud_max\<rparr>]\<rparr>;
          count = length collection;
          w = say (FoundImages count start_date end_date) w
      in if count = 0 then (None, w) else (Some (MedianClip collection region), w))"

definition calculate_ndvi :: "'scene env \<Rightarrow> 'scene image \<Rightarrow> raster" where
  "calculate_ndvi env img =
     rename \<lparr>band = ''nd'', px = normalizedDifference env img ''B8'' ''B4''\<rparr> ''NDVI''"

definition calculate_nbr :: "'scene env \<Rightarrow> 'scene image \<Rightarrow> raster" where
  "calculate_nbr env img =
     rename \<lparr>band = ''nd'', px = normalizedDifference env img ''B8'' ''B12''\<rparr> ''NBR''"

subsection \<open>Change detection\<close>

text \<open>The argument \<open>current_date\<close>: absent, a string, or a datetime.\<close>

datatype date_arg = NoDate | DateStr string | DateObj datetime

text \<open>
  The block headed \<^verbatim>\<open># Date ranges\<close> of \<open>detect_changes\<close>: the four strings, computed in
  the order of the source, as (baseline start, baseline end, current start, current end).
\<close>

definition date_ranges :: "datetime \<Rightarrow> int \<Rightarrow> error + (string \<times> string \<times> string \<times> string)" where
  "date_ranges current lookback_days =
     (case sub_days current 15 of
        Inl e \<Rightarrow> Inl e
      | Inr cs \<Rightarrow>
         (let current_start = strftime_ymd cs;
              current_end = strftime_ymd current
          in case sub_days current lookback_days of
               Inl e \<Rightarrow> Inl e
             | Inr be \<Rightarrow>
                (let baseline_end = strftime_ymd be
                 in case sub_days current (lookback_days + 15) of
                      Inl e \<Rightarrow> Inl e
                    | Inr bs \<Rightarrow>
                        Inr (strftime_ymd bs, baseline_end, current_start, current_end))))"

text \<open>
  The last part of \<open>detect_changes\<close>, from \<^verbatim>\<open># Calculate NDVI for both periods\<close> to
  the dictionary it returns.
\<close>

definition change_record ::
  "config \<Rightarrow> 'scene env \<Rightarrow> 'scene image \<Rightarrow> 'scene image \<Rightarrow> string \<Rightarrow> string \<Rightarrow> change_results" where
  "change_record cfg env baseline_image current_image baseline_end current_end =
     (let baseline_ndvi' = calculate_ndvi env baseline_image;
          current_ndvi' = calculate_ndvi env current_image;
          ndvi_change' = rename (subtract current_ndvi' baseline_ndvi') ''NDVI_change'';
          damage_mask' = lt ndvi_change' (NDVI_DECREASE_THRESHOLD cfg);
          recovery_mask' = gt ndvi_change' (NDVI_INCREASE_THRESHOLD cfg)
      in \<lparr>baseline_ndvi = baseline_ndvi',
          current_ndvi = current_ndvi',
          ndvi_change = ndvi_change',
          damage_mask = damage_mask',
          recovery_mask = recovery_mask',
          baseline_date = baseline_end,
          current_date = current_end\<rparr>)"

text \<open>The first lines of \<open>detect_changes\<close>: the reference date.\<close>

definition reference_date :: "'scene env \<Rightarrow> date_arg \<Rightarrow> world \<Rightarrow> (error + datetime) \<times> world" where
  "reference_date env current_date_arg w =
     (case current_date_arg of
        NoDate \<Rightarrow> (Inr (now env (clock_reads w)), w\<lparr>clock_reads := clock_reads w + 1\<rparr>)
      | DateStr s \<Rightarrow> (strptime_ymd s, w)
      | DateObj t \<Rightarrow> (Inr t, w))"

definition detect_changes ::
  "config \<Rightarrow> 'scene env \<Rightarrow> geometry \<Rightarrow> date_arg \<Rightarrow> int \<Rightarrow> world
     \<Rightarrow> (error + change_results option) \<times> world" where
  "detect_changes cfg env region current_date_arg lookback_days w =
     (case reference_date env current_date_arg w of
        (Inl e, w) \<Rightarrow> (Inl e, w)
      | (Inr current, w) \<Rightarrow>
         (case date_ranges current lookback_days of
            Inl e \<Rightarrow> (Inl e, w)
          | Inr (baseline_start, baseline_end, current_start, current_end) \<Rightarrow>
             (let w = say AnalyzingChanges w;
                  w = say (BaselineRange baseline_start baseline_end) w;
                  w = say (CurrentRange current_start current_end) w;
                  w = say FetchingBaseline w;
                  (baseline_image, w) = get_sentinel2_image env region baseline_start baseline_end 20 w;
                  w = say FetchingCurrent w;
                  (current_image, w) = get_sentinel2_image env region current_start current_end 20 w
              in if baseline_image = None \<or> current_image = None
                 then (Inr None, say InsufficientImagery w)
                 else (Inr (Some (change_record cfg env (the baseline_image) (the current_image)
                                    baseline_end current_end)), w))))"

subsection \<open>Alert extraction\<close>

text \<open>
  \<^verbatim>\<open>round(x, 1)\<close>: the nearest multiple of one tenth, a tie going to the even neighbour.
\<close>

definition round_half_even :: "real \<Rightarrow> int" where
  "round_half_even x =
     (let f = \<lfloor>x\<rfloor>; d = x - of_int f
      in if d < 1 / 2 then f else if d > 1 / 2 then f + 1 else if even f then f else f + 1)"

definition round1 :: "real \<Rightarrow> real" where
  "round1 x = of_int (round_half_even (x * 10)) / 10"

text \<open>The two dictionaries appended to \<^verbatim>\<open>alerts\<close>, for the feature at position \<open>i\<close>.\<close>

definition damage_alert :: "change_results \<Rightarrow> nat \<Rightarrow> raw_feature \<Rightarrow> real \<Rightarrow> alert" where
  "damage_alert cr i feature area_acres' =
     \<lparr>alert_id = ''damage_'' @ str_nat (i + 1),
      alert_type = ''vegetation_change'',
      severity = (if area_acres' > 20 then ''high'' else ''medium''),
      lat = snd (centroid feature),
      lng = fst (centroid feature),
      area_acres = round1 area_acres',
      date = current_date cr,
      description = FString ''Significant vegetation loss detected ('' (round1 area_acres')
                      '' acres)''\<rparr>"

definition recovery_alert :: "change_results \<Rightarrow> nat \<Rightarrow> raw_feature \<Rightarrow> real \<Rightarrow> alert" where
  "recovery_alert cr i feature area_acres' =
     \<lparr>alert_id = ''recovery_'' @ str_nat (i + 1),
      alert_type = ''recovery'',
      severity = ''positive'',
      lat = snd (centroid feature),
      lng = fst (centroid feature),
      area_acres = round1 area_acres',
      date = current_date cr,
      description = FString ''Vegetation recovery observed ('' (round1 area_acres')
                      '' acres)''\<rparr>"

text \<open>
  The two \<^verbatim>\<open>for i, feature in enumerate(...)\<close> loops: \<open>i\<close> is the position of the feature
  in the list the service returned, \<open>alert_list\<close> the list \<^verbatim>\<open>alerts\<close> the loop appends to.
\<close>

fun damage_loop :: "config \<Rightarrow> change_results \<Rightarrow> nat \<Rightarrow> raw_feature list \<Rightarrow> alert list \<Rightarrow> alert list" where
  "damage_loop cfg cr i [] alert_list = alert_list"
| "damage_loop cfg cr i (feature # rest) alert_list =
     (let area_acres' = area_sqm feature * 0.000247105
      in if area_acres' \<ge> MIN_AREA_ACRES cfg
         then damage_loop cfg cr (i + 1) rest (alert_list @ [damage_alert cr i feature area_acres'])
         else damage_loop cfg cr (i + 1) rest alert_list)"

fun recovery_loop :: "config \<Rightarrow> change_results \<Rightarrow> nat \<Rightarrow> raw_feature list \<Rightarrow> alert list \<Rightarrow> alert list" where
  "recovery_loop cfg cr i [] alert_list = alert_list"
| "recovery_loop cfg cr i (feature # rest) alert_list =
     (let area_acres' = area_sqm feature * 0.000247105
      in if area_acres' \<ge> MIN_AREA_ACRES cfg
         then recovery_loop cfg cr (i + 1) rest (alert_list @ [recovery_alert cr i feature area_acres'])
         else recovery_loop cfg cr (i + 1) rest alert_list)"

definition vectors_call :: "raster \<Rightarrow> geometry \<Rightarrow> vector_call" where
  "vectors_call m region =
     \<lparr>v_mask = m, v_geometry = region, v_scale = 30, v_maxPixels = 100000000,
      v_geometryType = ''polygon''\<rparr>"

definition extract_change_areas ::
  "config \<Rightarrow> 'scene env \<Rightarrow> change_results \<Rightarrow> geometry \<Rightarrow> world \<Rightarrow> alert list \<times> world" where
  "extract_change_areas cfg env cr region w =
     (let alert_list = [];
          w = w\<lparr>vector_log := vector_log w @ [vectors_call (selfMask (damage_mask cr)) region]\<rparr>;
          damage_features = reduceToVectors env (selfMask (damage_mask cr)) region;
          alert_list = (case damage_features of
                      None \<Rightarrow> alert_list
                    | Some features \<Rightarrow> damage_loop cfg cr 0 features alert_list);
          w = w\<lparr>vector_log := vector_log w @ [vectors_call (selfMask (recovery_mask cr)) region]\<rparr>;
          recovery_features = reduceToVectors env (selfMask (recovery_mask cr)) region;
          alert_list = (case recovery_features of
                      None \<Rightarrow> alert_list
                    | Some features \<Rightarrow> recovery_loop cfg cr 0 features alert_list)
      in (alert_list, w))"

subsection \<open>Export and the main pipeline\<close>

definition export_alerts_json :: "'scene env \<Rightarrow> alert list \<Rightarrow> string \<Rightarrow> world \<Rightarrow> world" where
  "export_alerts_json env alert_list output_path w =
     (let t = now env (clock_reads w);
          w = w\<lparr>clock_reads := clock_reads w + 1\<rparr>;
          output = \<lparr>generated = isoformat t, count = length alert_list, alerts = alert_list\<rparr>;
          w = w\<lparr>written := written w @ [(output_path, output)]\<rparr>
      in say (Exported (length alert_list) output_path) w)"

text \<open>
  \<^verbatim>\<open>sorted(xs, key=key, reverse=True)\<close>: the list is reversed, sorted by a stable ascending
  sort, and reversed again.
\<close>

definition sorted_reverse :: "('a \<Rightarrow> 'k::linorder) \<Rightarrow> 'a list \<Rightarrow> 'a list" where
  "sorted_reverse key xs = rev (sort_key key (rev xs))"

text \<open>The alerts of the summary printed at the end of a run.\<close>

definition top_alerts :: "alert list \<Rightarrow> alert list" where
  "top_alerts alert_list = take 5 (sorted_reverse area_acres alert_list)"

definition say_top_alert :: "world \<Rightarrow> alert \<Rightarrow> world" where
  "say_top_alert w a = say (TopAlert (alert_type a) (area_acres a) (lat a) (lng a)) w"

definition run_analysis ::
  "config \<Rightarrow> 'scene env \<Rightarrow> string option \<Rightarrow> world \<Rightarrow> (error + alert list option) \<times> world" where
  "run_analysis cfg env boundary_file w =
     (let w = say Rule (say Title (say Rule w));
          (ok, w) = initialize_ee env w
      in if \<not> ok then (Inr None, w)
         else
          (case load_reservation_boundary cfg env boundary_file (say LoadingBoundary w) of
             (Inl e, w) \<Rightarrow> (Inl e, w)
           | (Inr region, w) \<Rightarrow>
              (case detect_changes cfg env region NoDate 30 (say RunningDetection w) of
                 (Inl e, w) \<Rightarrow> (Inl e, w)
               | (Inr None, w) \<Rightarrow> (Inr None, say AnalysisFailed w)
               | (Inr (Some changes), w) \<Rightarrow>
                  (let (alert_list, w) = extract_change_areas cfg env changes region (say ExtractingAreas w);
                       w = say (FoundChanges (length alert_list)) w;
                       w = w\<lparr>made_dirs := made_dirs w @ [OUTPUT_DIR cfg]\<rparr>;
                       w = export_alerts_json env alert_list (OUTPUT_DIR cfg @ ''/alerts.json'') w;
                       w = say Rule (say AnalysisComplete (say Rule w));
                       high_priority = filter (\<lambda>a. severity a = ''high'') alert_list;
                       medium_priority = filter (\<lambda>a. severity a = ''medium'') alert_list;
                       recovery = filter (\<lambda>a. severity a = ''positive'') alert_list;
                       w = say (HighPriority (length high_priority)) w;
                       w = say (MediumPriority (length medium_priority)) w;
                       w = say (RecoveryAreas (length recovery)) w;
                       w = (if alert_list \<noteq> []
                            then foldl say_top_alert (say TopAlerts w) (top_alerts alert_list)
                            else w)
                   in (Inr (Some alert_list), w)))))"

text \<open>
  The part of \<open>run_analysis\<close> after a successful change detection, on its own, for the
  proofs; and the line printed for one alert of the summary.
\<close>

definition analysis_tail ::
  "config \<Rightarrow> 'scene env \<Rightarrow> geometry \<Rightarrow> change_results \<Rightarrow> world
     \<Rightarrow> (error + alert list option) \<times> world" where
  "analysis_tail cfg env region changes w =
     (let (alert_list, w) = extract_change_areas cfg env changes region (say ExtractingAreas w);
          w = say (FoundChanges (length alert_list)) w;
          w = w\<lparr>made_dirs := made_dirs w @ [OUTPUT_DIR cfg]\<rparr>;
          w = export_alerts_json env alert_list (OUTPUT_DIR cfg @ ''/alerts.json'') w;
          w = say Rule (say AnalysisComplete (say Rule w));
          high_priority = filter (\<lambda>a. severity a = ''high'') alert_list;
          medium_priority = filter (\<lambda>a. severity a = ''medium'') alert_list;
          recovery = filter (\<lambda>a. severity a = ''positive'') alert_list;
          w = say (HighPriority (length high_priority)) w;
          w = say (MediumPriority (length medium_priority)) w;
          w = say (RecoveryAreas (length recovery)) w;
          w = (if alert_list \<noteq> []
               then foldl say_top_alert (say TopAlerts w) (top_alerts alert_list)
               else w)
      in (Inr (Some alert_list), w))"

definition top_line :: "alert \<Rightarrow> message" where
  "top_line a = TopAlert (alert_type a) (area_acres a) (lat a) (lng a)"

subsection \<open>A sample run\<close>

text \<open>
  Collaborators for concrete runs: the clock stands at midnight of 15 June 2024, the
  catalogue has one scene for every window, the
  vegetation index is 0.8 in the baseline composite and 0.5 in the current one at every
  pixel, and the vectorisation returns four polygons of 1.9, 2.0, 20.0 and 20.01 acres for
  either mask. \<open>broken.geojson\<close> is a file that is not JSON; no other file exists.
\<close>

definition example_date :: datetime where
  "example_date =
     \<lparr>year = 2024, month = 6, day = 15, hour = 0, minute = 0, second = 0, microsecond = 0\<rparr>"

definition example_region :: geometry where
  "example_region = Rectangle [-95.5, 47.1, -94.0, 48.3]"

definition example_features :: "raw_feature list" where
  "example_features =
     [\<lparr>area_sqm = 1.9 / 0.000247105, centroid = (-94.9, 47.9)\<rparr>,
      \<lparr>area_sqm = 2.0 / 0.000247105, centroid = (-94.8, 47.8)\<rparr>,
      \<lparr>area_sqm = 20.0 / 0.000247105, centroid = (-94.7, 47.7)\<rparr>,
      \<lparr>area_sqm = 20.01 / 0.000247105, centroid = (-94.6, 47.6)\<rparr>]"

definition example_env :: "nat env" where
  "example_env =
     \<lparr>ee_initialize = None,
      now = (\<lambda>k. example_date),
      disk = (\<lambda>path. if path = ''broken.geojson'' then Some Unparseable else None),
      s2_scenes = (\<lambda>region start_date end_date cloud_max.
                     if end_date = ''2024-06-15'' then [2] else [1]),
      normalizedDifference = (\<lambda>img a b p.
                     case img of MedianClip scenes region \<Rightarrow>
                       if scenes = [2] then Some 0.5 else Some 0.8),
      reduceToVectors = (\<lambda>m region. Some example_features)\<rparr>"

text \<open>The same, with no scene in any window that ends on 15 June 2024.\<close>

definition no_current_env :: "nat env" where
  "no_current_env =
     example_env\<lparr>s2_scenes := (\<lambda>region start_date end_date cloud_max.
                                   if end_date = ''2024-06-15'' then [] else [1])\<rparr>"

text \<open>A reference date too early for a window of fifteen days before it.\<close>

definition early_date :: datetime where
  "early_date =
     \<lparr>year = 1, month = 1, day = 10, hour = 0, minute = 0, second = 0, microsecond = 0\<rparr>"

text \<open>The change results and the alerts of the sample run.\<close>

definition example_changes :: change_results where
  "example_changes =
     change_record module_config example_env (MedianClip [1] example_region)
       (MedianClip [2] example_region) ''2024-05-16'' ''2024-06-15''"

definition example_alerts :: "alert list" where
  "example_alerts =
     fst (extract_change_areas module_config example_env example_changes example_region world0)"

subsection \<open>The vocabulary of the specification\<close>

text \<open>
  The statements below speak of the area of a raw feature in acres, of a feature that
  passes the minimum-area filter, and of the features the vectorisation returned for a
  mask (none when the answer has no features).
\<close>

definition spec_acres :: "raw_feature \<Rightarrow> real" where
  "spec_acres f = area_sqm f * 0.000247105"

definition spec_survives :: "config \<Rightarrow> raw_feature \<Rightarrow> bool" where
  "spec_survives cfg f \<longleftrightarrow> spec_acres f \<ge> MIN_AREA_ACRES cfg"

definition returned_features :: "'scene env \<Rightarrow> raster \<Rightarrow> geometry \<Rightarrow> raw_feature list" where
  "returned_features env m region =
     (case reduceToVectors env (selfMask m) region of None \<Rightarrow> [] | Some features \<Rightarrow> features)"

text \<open>A pixel is set in a mask when the comparison holds there: its value is one.\<close>

definition is_set :: "raster \<Rightarrow> pixel \<Rightarrow> bool" where
  "is_set m p \<longleftrightarrow> px m p = Some 1"

section \<open>The calendar\<close>

text \<open>
  \<open>ord2ymd\<close> inverts \<open>ymd2ord\<close>: the date it returns for a day number has that day number,
  its month and day are those of a calendar date, and day numbers from 1 to \<open>MAXORDINAL\<close>
  give years from 1 to 9999. A day number \<open>n\<close> is split as the library does, into
  400-year, 100-year, 4-year and 1-year cycles.
\<close>

lemma div_decomp: "0 \<le> r \<Longrightarrow> r < k \<Longrightarrow> (k * q + r) div k = (q::int)"
  by (simp add: div_pos_pos_trivial)

lemma dby_decomp:
  assumes "0 \<le> b" "b \<le> 3" "0 \<le> c" "c \<le> 24" "0 \<le> d" "d \<le> 3"
  shows "days_before_year (400 * a + 100 * b + 4 * c + d + 1)
           = 146097 * a + 36524 * b + 1461 * c + 365 * d"
proof -
  let ?y = "400 * a + 100 * b + 4 * c + d"
  have "?y = 4 * (100 * a + 25 * b + c) + d" by simp
  then have d4: "?y div 4 = 100 * a + 25 * b + c"
    using div_decomp [of d 4 "100 * a + 25 * b + c"] assms by simp
  have "?y = 100 * (4 * a + b) + (4 * c + d)" by simp
  then have d100: "?y div 100 = 4 * a + b"
    using div_decomp [of "4 * c + d" 100 "4 * a + b"] assms by simp
  have "?y = 400 * a + (100 * b + 4 * c + d)" by simp
  then have d400: "?y div 400 = a"
    using div_decomp [of "100 * b + 4 * c + d" 400 a] assms by simp
  show ?thesis
    unfolding days_before_year_def Let_def using d4 d100 d400 by simp
qed

lemma leap_decomp:
  assumes "0 \<le> b" "b \<le> 3" "0 \<le> c" "c \<le> 24" "0 \<le> d" "d \<le> 3"
  shows "is_leap (400 * a + 100 * b + 4 * c + d + 1) \<longleftrightarrow> (d = 3 \<and> (c \<noteq> 24 \<or> b = 3))"
proof -
  let ?y = "400 * a + 100 * b + 4 * c + d + 1"
  have "?y = 4 * (100 * a + 25 * b + c) + (d + 1)" by simp
  then have m4: "?y mod 4 = (d + 1) mod 4"
    by (metis mod_mult_self4)
  have "?y = 100 * (4 * a + b) + (4 * c + d + 1)" by simp
  then have m100: "?y mod 100 = (4 * c + d + 1) mod 100"
    by (metis mod_mult_self4)
  have "?y = 400 * a + (100 * b + 4 * c + d + 1)" by simp
  then have m400: "?y mod 400 = (100 * b + 4 * c + d + 1) mod 400"
    by (metis mod_mult_self4)
  have a4: "(d + 1) mod 4 = 0 \<longleftrightarrow> d = 3" using assms by presburger
  have a100: "d = 3 \<Longrightarrow> (4 * c + d + 1) mod 100 = 0 \<longleftrightarrow> c = 24" using assms by presburger
  have a400: "d = 3 \<Longrightarrow> c = 24 \<Longrightarrow> (100 * b + 4 * c + d + 1) mod 400 = 0 \<longleftrightarrow> b = 3"
    using assms by presburger
  show ?thesis
    unfolding is_leap_def m4 m100 m400 using a4 a100 a400 by auto
qed

lemma int_1_12:
  assumes "1 \<le> (k::int)" "k \<le> 12"
  shows "k \<in> {1, 2, 3, 4, 5, 6, 7, 8, 9, 10, 11, 12}"
proof -
  have s: "a \<le> k \<Longrightarrow> k = a \<or> a + 1 \<le> k" for a by linarith
  have "k = 1 \<or> k = 2 \<or> k = 3 \<or> 4 \<le> k"
    using assms(1) s [of 1] s [of 2] s [of 3] by fastforce
  moreover have "4 \<le> k \<Longrightarrow> k = 4 \<or> k = 5 \<or> k = 6 \<or> 7 \<le> k"
    using s [of 4] s [of 5] s [of 6] by fastforce
  moreover have "7 \<le> k \<Longrightarrow> k = 7 \<or> k = 8 \<or> k = 9 \<or> 10 \<le> k"
    using s [of 7] s [of 8] s [of 9] by fastforce
  moreover have "10 \<le> k \<Longrightarrow> k = 10 \<or> k = 11 \<or> k = 12"
    using assms(2) s [of 10] s [of 11] by fastforce
  ultimately show ?thesis by blast
qed

text \<open>The month estimate and its correction, for an offset \<open>n\<close> into a year.\<close>

lemma md_of_ok:
  assumes "0 \<le> n" "n \<le> 365" "L \<or> n < 365"
  shows "case md_of n L of (m, d) \<Rightarrow>
           1 \<le> m \<and> m \<le> 12 \<and> 1 \<le> d \<and>
           d \<le> (if m = 2 \<and> L then 29 else DAYS_IN_MONTH ! nat m) \<and>
           DAYS_BEFORE_MONTH ! nat m + (if m > 2 \<and> L then 1 else 0) + d = n + 1"
proof -
  define mo where "mo = (n + 50) div 32"
  have bounds: "32 * mo \<le> n + 50" "n + 50 < 32 * mo + 32"
    unfolding mo_def by linarith+
  note defs = md_of_def mo_def [symmetric] Let_def DAYS_BEFORE_MONTH_def DAYS_IN_MONTH_def
  have "1 \<le> mo" "mo \<le> 12" using bounds assms by linarith+
  then have "mo \<in> {1, 2, 3, 4, 5, 6, 7, 8, 9, 10, 11, 12}" by (rule int_1_12)
  then consider "mo = 1" | "mo = 2" | "mo = 3" | "mo = 4" | "mo = 5" | "mo = 6"
    | "mo = 7" | "mo = 8" | "mo = 9" | "mo = 10" | "mo = 11" | "mo = 12" by auto
  then show ?thesis
  proof cases
    case 1 with bounds assms show ?thesis by (auto simp add: defs)
  next
    case 2 with bounds assms show ?thesis by (auto simp add: defs)
  next
    case 3 with bounds assms show ?thesis by (auto simp add: defs)
  next
    case 4 with bounds assms show ?thesis by (auto simp add: defs)
  next
    case 5 with bounds assms show ?thesis by (auto simp add: defs)
  next
    case 6 with bounds assms show ?thesis by (auto simp add: defs)
  next
    case 7 with bounds assms show ?thesis by (auto simp add: defs)
  next
    case 8 with bounds assms show ?thesis by (auto simp add: defs)
  next
    case 9 with bounds assms show ?thesis by (auto simp add: defs)
  next
    case 10 with bounds assms show ?thesis by (auto simp add: defs)
  next
    case 11 with bounds assms show ?thesis by (auto simp add: defs)
  next
    case 12 with bounds assms show ?thesis by (auto simp add: defs)
  qed
qed

lemma case_if_pair:
  "(case (if c then (x1, y1) else (x2, y2)) of (m, dd) \<Rightarrow> f m dd) = (if c then f x1 y1 else f x2 y2)"
  by simp

lemma ord2ymd_unfold:
  "ord2ymd n =
    (let a = (n - 1) div 146097; r1 = (n - 1) mod 146097;
         b = r1 div 36524; r2 = r1 mod 36524;
         c = r2 div 1461; r3 = r2 mod 1461;
         d = r3 div 365; r4 = r3 mod 365
     in if d = 4 \<or> b = 4 then (a * 400 + 1 + (b * 100 + c * 4 + d) - 1, 12, 31)
        else (case md_of r4 (d = 3 \<and> (c \<noteq> 24 \<or> b = 3)) of
                (m, dd) \<Rightarrow> (a * 400 + 1 + (b * 100 + c * 4 + d), m, dd)))"
  by (simp only: ord2ymd_def md_of_def Let_def DI400Y_def DI100Y_def DI4Y_def case_if_pair)

lemma year_bound:
  fixes a b c d :: int
  assumes "0 \<le> a" "0 \<le> b" "b \<le> 3" "0 \<le> c" "c \<le> 24" "0 \<le> d" "d \<le> 3"
    and "146097 * a + 36524 * b + 1461 * c + 365 * d \<le> 3652058"
  shows "400 * a + 100 * b + 4 * c + d + 1 \<le> 9999"
proof -
  have a24: "a \<le> 24" using assms by linarith
  show ?thesis
  proof (cases "a = 24")
    case False
    then show ?thesis using a24 assms by linarith
  next
    case a: True
    show ?thesis
    proof (cases "b = 3")
      case False
      then show ?thesis using a assms by linarith
    next
      case b: True
      show ?thesis
      proof (cases "c = 24")
        case False
        then show ?thesis using a b assms by linarith
      next
        case True
        then show ?thesis using a b assms by linarith
      qed
    qed
  qed
qed

lemma ord2ymd_props:
  "case ord2ymd n of (y, m, d) \<Rightarrow>
     ymd2ord y m d = n \<and> 1 \<le> m \<and> m \<le> 12 \<and> 1 \<le> d \<and> d \<le> days_in_month y m \<and>
     (1 \<le> n \<longrightarrow> n \<le> MAXORDINAL \<longrightarrow> 1 \<le> y \<and> y \<le> 9999)"
proof -
  define a where "a = (n - 1) div 146097"
  define r1 where "r1 = (n - 1) mod 146097"
  define b where "b = r1 div 36524"
  define r2 where "r2 = r1 mod 36524"
  define c where "c = r2 div 1461"
  define r3 where "r3 = r2 mod 1461"
  define d where "d = r3 div 365"
  define r4 where "r4 = r3 mod 365"
  have e1: "n - 1 = 146097 * a + r1" and b1: "0 \<le> r1" "r1 < 146097"
    unfolding a_def r1_def by simp_all
  have e2: "r1 = 36524 * b + r2" and b2: "0 \<le> r2" "r2 < 36524"
    unfolding b_def r2_def by simp_all
  have e3: "r2 = 1461 * c + r3" and b3: "0 \<le> r3" "r3 < 1461"
    unfolding c_def r3_def by simp_all
  have e4: "r3 = 365 * d + r4" and b4: "0 \<le> r4" "r4 < 365"
    unfolding d_def r4_def by simp_all
  have bb: "0 \<le> b" "b \<le> 4" using e2 b1 b2 by linarith+
  have bc: "0 \<le> c" "c \<le> 24" using e3 b2 b3 by linarith+
  have bd: "0 \<le> d" "d \<le> 4" using e4 b3 b4 by linarith+
  have unf: "ord2ymd n =
     (if d = 4 \<or> b = 4 then (a * 400 + 1 + (b * 100 + c * 4 + d) - 1, 12, 31)
      else (case md_of r4 (d = 3 \<and> (c \<noteq> 24 \<or> b = 3)) of
                (m, dd) \<Rightarrow> (a * 400 + 1 + (b * 100 + c * 4 + d), m, dd)))"
    unfolding ord2ymd_unfold Let_def a_def r1_def b_def r2_def c_def r3_def d_def r4_def ..
  have a0: "1 \<le> n \<Longrightarrow> 0 \<le> a"
    using e1 b1 by linarith
  have dec31: "is_leap y \<Longrightarrow> ymd2ord y 12 31 = days_before_year y + 366" for y
    by (simp add: ymd2ord_def days_before_month_def DAYS_BEFORE_MONTH_def)
  have dim12: "days_in_month y 12 = 31" for y
    by (simp add: days_in_month_def DAYS_IN_MONTH_def)
  show ?thesis
  proof (cases "b = 4")
    case True
    then have z: "r2 = 0" "c = 0" "r3 = 0" "d = 0" "r4 = 0"
      using e2 e3 e4 b1 b2 b3 b4 bc bd by linarith+
    let ?y = "400 * a + 100 * 3 + 4 * 24 + 3 + 1"
    have res: "ord2ymd n = (?y, 12, 31)"
      unfolding unf using True z by simp
    have lp: "is_leap ?y"
      using leap_decomp [of 3 24 3 a] by simp
    have dby: "days_before_year ?y = n - 366"
      using dby_decomp [of 3 24 3 a] e1 e2 True z by simp
    have yr: "1 \<le> n \<Longrightarrow> n \<le> MAXORDINAL \<Longrightarrow> 1 \<le> ?y \<and> ?y \<le> 9999"
      using a0 e1 e2 True z unfolding MAXORDINAL_def by linarith
    show ?thesis
      unfolding res using dec31 [OF lp] dby dim12 yr by simp
  next
    case nb4: False
    then have b3': "b \<le> 3" using bb by linarith
    show ?thesis
    proof (cases "d = 4")
      case True
      then have z: "r4 = 0" "c \<le> 23" using e3 e4 b2 b3 b4 by linarith+
      let ?y = "400 * a + 100 * b + 4 * c + 3 + 1"
      have res: "ord2ymd n = (?y, 12, 31)"
        unfolding unf using True by simp
      have lp: "is_leap ?y"
        using leap_decomp [of b c 3 a] bb(1) b3' bc z by simp
      have dby: "days_before_year ?y = n - 366"
        using dby_decomp [of b c 3 a] bb(1) b3' bc e1 e2 e3 e4 True z by simp
      have "1 \<le> n \<Longrightarrow> n \<le> MAXORDINAL \<Longrightarrow> ?y \<le> 9999"
        using year_bound [of a b c 3] a0 bb(1) b3' bc e1 e2 e3 e4 True z
        unfolding MAXORDINAL_def by simp
      then have yr: "1 \<le> n \<Longrightarrow> n \<le> MAXORDINAL \<Longrightarrow> 1 \<le> ?y \<and> ?y \<le> 9999"
        using a0 bb(1) bc(1) by simp
      show ?thesis
        unfolding res using dec31 [OF lp] dby dim12 yr by simp
    next
      case False
      then have d3: "d \<le> 3" using bd by linarith
      let ?y = "400 * a + 100 * b + 4 * c + d + 1"
      let ?L = "d = 3 \<and> (c \<noteq> 24 \<or> b = 3)"
      obtain m dd where md: "md_of r4 ?L = (m, dd)" by (cases "md_of r4 ?L")
      have res: "ord2ymd n = (?y, m, dd)"
        unfolding unf using False nb4 md by simp
      have lp: "is_leap ?y \<longleftrightarrow> ?L"
        using leap_decomp [of b c d a] bb(1) b3' bc bd(1) d3 by simp
      have dby: "days_before_year ?y = n - 1 - r4"
        using dby_decomp [of b c d a] bb(1) b3' bc bd(1) d3 e1 e2 e3 e4 by simp
      have mdok: "1 \<le> m \<and> m \<le> 12 \<and> 1 \<le> dd \<and>
           dd \<le> (if m = 2 \<and> ?L then 29 else DAYS_IN_MONTH ! nat m) \<and>
           DAYS_BEFORE_MONTH ! nat m + (if m > 2 \<and> ?L then 1 else 0) + dd = r4 + 1"
        using md_of_ok [of r4 ?L] b4 md by simp
      have "1 \<le> n \<Longrightarrow> n \<le> MAXORDINAL \<Longrightarrow> ?y \<le> 9999"
        using year_bound [of a b c d] a0 bb(1) b3' bc bd(1) d3 e1 e2 e3 e4 b4
        unfolding MAXORDINAL_def by simp
      then have yr: "1 \<le> n \<Longrightarrow> n \<le> MAXORDINAL \<Longrightarrow> 1 \<le> ?y \<and> ?y \<le> 9999"
        using a0 bb(1) bc(1) bd(1) by simp
      have ord: "ymd2ord ?y m dd = n"
        unfolding ymd2ord_def days_before_month_def lp dby using mdok by simp
      have dim: "dd \<le> days_in_month ?y m"
        unfolding days_in_month_def lp using mdok by simp
      show ?thesis
        unfolding res using ord dim mdok yr by simp
    qed
  qed
qed


text \<open>Day numbers in range and valid dates correspond.\<close>

lemma fromordinal_ok:
  assumes "in_range n"
  shows "valid_datetime (fromordinal n)" and "toordinal (fromordinal n) = n"
proof -
  obtain y m d where r: "ord2ymd n = (y, m, d)" by (cases "ord2ymd n") auto
  have p: "ymd2ord y m d = n \<and> 1 \<le> m \<and> m \<le> 12 \<and> 1 \<le> d \<and> d \<le> days_in_month y m \<and>
     (1 \<le> n \<longrightarrow> n \<le> MAXORDINAL \<longrightarrow> 1 \<le> y \<and> y \<le> 9999)"
    using ord2ymd_props [of n] r by simp
  show "valid_datetime (fromordinal n)"
    using p assms by (simp add: valid_datetime_def fromordinal_def r in_range_def)
  show "toordinal (fromordinal n) = n"
    using p by (simp add: toordinal_def fromordinal_def r)
qed

lemma year_split:
  fixes y :: int
  obtains a b c e where "y = 400 * a + 100 * b + 4 * c + e + 1"
    "0 \<le> b" "b \<le> 3" "0 \<le> c" "c \<le> 24" "0 \<le> e" "e \<le> 3"
proof -
  define a where "a = (y - 1) div 400"
  define r where "r = (y - 1) mod 400"
  define b where "b = r div 100"
  define r' where "r' = r mod 100"
  define c where "c = r' div 4"
  define e where "e = r' mod 4"
  have e1: "y - 1 = 400 * a + r" and b1: "0 \<le> r" "r < 400"
    unfolding a_def r_def by simp_all
  have e2: "r = 100 * b + r'" and b2: "0 \<le> r'" "r' < 100"
    unfolding b_def r'_def by simp_all
  have e3: "r' = 4 * c + e" and b3: "0 \<le> e" "e < 4"
    unfolding c_def e_def by simp_all
  have "0 \<le> b" "b \<le> 3" using e2 b1 b2 by linarith+
  moreover have "0 \<le> c" "c \<le> 24" using e3 b2 b3 by linarith+
  moreover have "y = 400 * a + 100 * b + 4 * c + e + 1" using e1 e2 e3 by linarith
  ultimately show ?thesis using that [of a b c e] b3 by simp
qed

lemma day_of_year_bound:
  assumes "1 \<le> m" "m \<le> 12" "1 \<le> d" "d \<le> days_in_month y m"
  shows "1 \<le> days_before_month y m + d"
    and "days_before_month y m + d \<le> 365 + (if is_leap y then 1 else 0)"
proof -
  have "m \<in> {1, 2, 3, 4, 5, 6, 7, 8, 9, 10, 11, 12}" using assms(1,2) by (rule int_1_12)
  then have "1 \<le> days_before_month y m + d \<and>
             days_before_month y m + d \<le> 365 + (if is_leap y then 1 else 0)"
    using assms(3,4)
    by (auto simp add: days_before_month_def days_in_month_def DAYS_BEFORE_MONTH_def
          DAYS_IN_MONTH_def split: if_splits)
  then show "1 \<le> days_before_month y m + d"
    and "days_before_month y m + d \<le> 365 + (if is_leap y then 1 else 0)" by simp_all
qed

lemma valid_toordinal:
  assumes "valid_datetime t"
  shows "in_range (toordinal t)"
proof -
  obtain a b c e where y: "year t = 400 * a + 100 * b + 4 * c + e + 1"
    and bs: "0 \<le> b" "b \<le> 3" "0 \<le> c" "c \<le> 24" "0 \<le> e" "e \<le> 3"
    by (rule year_split)
  have v: "1 \<le> year t" "year t \<le> 9999" "1 \<le> month t" "month t \<le> 12" "1 \<le> day t"
    "day t \<le> days_in_month (year t) (month t)"
    using assms by (simp_all add: valid_datetime_def)
  have dby: "days_before_year (year t) = 146097 * a + 36524 * b + 1461 * c + 365 * e"
    unfolding y using bs by (rule dby_decomp)
  have lp: "is_leap (year t) \<longleftrightarrow> (e = 3 \<and> (c \<noteq> 24 \<or> b = 3))"
    unfolding y using bs by (rule leap_decomp)
  have a0: "0 \<le> a" "a \<le> 24" using v(1,2) y bs by linarith+
  define k where "k = days_before_month (year t) (month t) + day t"
  have k1: "1 \<le> k" and k2: "k \<le> 365 + (if is_leap (year t) then 1 else 0)"
    unfolding k_def using day_of_year_bound [OF v(3,4,5,6)] by simp_all
  have ord: "toordinal t = 146097 * a + 36524 * b + 1461 * c + 365 * e + k"
    unfolding toordinal_def ymd2ord_def dby k_def by simp
  have lo: "1 \<le> toordinal t" unfolding ord using a0 bs k1 by linarith
  have hi: "toordinal t \<le> 3652059"
  proof (cases "a = 24")
    case False
    then show ?thesis unfolding ord using a0 bs k2 by (simp split: if_splits)
  next
    case a: True
    show ?thesis
    proof (cases "b = 3")
      case False
      then show ?thesis unfolding ord using a bs k2 by (simp split: if_splits)
    next
      case b: True
      show ?thesis
      proof (cases "c = 24")
        case False
        then show ?thesis unfolding ord using a b bs k2 by (simp split: if_splits)
      next
        case True
        then have "e \<le> 2" using a b y v(2) by linarith
        then show ?thesis unfolding ord using a b True bs k2 lp by (simp split: if_splits)
      qed
    qed
  qed
  show ?thesis using lo hi by (simp add: in_range_def MAXORDINAL_def)
qed


section \<open>Change detection\<close>

text \<open>Subtracting days from a date in range, and the four strings of the date ranges.\<close>

lemma strftime_ymd_time [simp]:
  "strftime_ymd (x\<lparr>hour := h, minute := mi, second := s, microsecond := us\<rparr>) = strftime_ymd x"
  by (simp add: strftime_ymd_def)

lemma sub_days_in_range:
  assumes "in_range (toordinal t)" "in_range (toordinal t - n)"
  shows "sub_days t n =
           Inr ((fromordinal (toordinal t - n))\<lparr>hour := hour t, minute := minute t,
                  second := second t, microsecond := microsecond t\<rparr>)"
proof -
  have "\<bar>n\<bar> \<le> 999999999"
    using assms unfolding in_range_def MAXORDINAL_def by linarith
  then show ?thesis
    using assms(2) by (simp add: sub_days_def Let_def in_range_def)
qed

lemma sub_days_error: "sub_days t n = Inl e \<Longrightarrow> e = OverflowError"
  by (auto simp add: sub_days_def Let_def split: if_splits)

lemma date_ranges_ok:
  assumes "in_range (toordinal t)" "in_range (toordinal t - 15)"
    "in_range (toordinal t - lb)" "in_range (toordinal t - (lb + 15))"
  shows "date_ranges t lb =
           Inr (strftime_ymd (fromordinal (toordinal t - (lb + 15))),
                strftime_ymd (fromordinal (toordinal t - lb)),
                strftime_ymd (fromordinal (toordinal t - 15)),
                strftime_ymd t)"
  unfolding date_ranges_def
  by (simp add: sub_days_in_range [OF assms(1,2)] sub_days_in_range [OF assms(1,3)]
        sub_days_in_range [OF assms(1,4)])

lemma date_ranges_error: "date_ranges t lb = Inl e \<Longrightarrow> e = OverflowError"
  by (auto simp add: date_ranges_def Let_def split: sum.splits dest: sub_days_error)

lemma reference_date_world:
  assumes "reference_date env arg w = (r, w1)"
  shows "console w1 = console w" "catalogue_log w1 = catalogue_log w"
    "vector_log w1 = vector_log w" "written w1 = written w" "made_dirs w1 = made_dirs w"
  using assms by (auto simp add: reference_date_def split: date_arg.splits)

lemma detect_changes_error:
  assumes "reference_date env arg w = (Inl e, w1)"
  shows "detect_changes cfg env region arg lb w = (Inl e, w1)"
  using assms by (simp add: detect_changes_def)

lemma detect_changes_range_error:
  assumes "reference_date env arg w = (Inr t, w1)" "date_ranges t lb = Inl e"
  shows "detect_changes cfg env region arg lb w = (Inl e, w1)"
  using assms by (simp add: detect_changes_def)

lemma detect_changes_queries:
  assumes "reference_date env arg w = (Inr t, w1)" "date_ranges t lb = Inr (bs, be, cs, ce)"
  shows "catalogue_log (snd (detect_changes cfg env region arg lb w)) =
           catalogue_log w @ [query region bs be, query region cs ce]"
    and "vector_log (snd (detect_changes cfg env region arg lb w)) = vector_log w"
    and "written (snd (detect_changes cfg env region arg lb w)) = written w"
    and "made_dirs (snd (detect_changes cfg env region arg lb w)) = made_dirs w"
    and "\<not> isl (fst (detect_changes cfg env region arg lb w))"
  using assms reference_date_world [OF assms(1)]
  by (simp_all add: detect_changes_def get_sentinel2_image_def say_def Let_def query_def)

lemma detect_changes_no_data:
  assumes "reference_date env arg w = (Inr t, w1)" "date_ranges t lb = Inr (bs, be, cs, ce)"
    "s2_scenes env region bs be 20 = [] \<or> s2_scenes env region cs ce 20 = []"
  shows "fst (detect_changes cfg env region arg lb w) = Inr None"
    and "console (snd (detect_changes cfg env region arg lb w)) =
           console w @ [AnalyzingChanges, BaselineRange bs be, CurrentRange cs ce,
             FetchingBaseline, FoundImages (length (s2_scenes env region bs be 20)) bs be,
             FetchingCurrent, FoundImages (length (s2_scenes env region cs ce 20)) cs ce,
             InsufficientImagery]"
  using assms reference_date_world [OF assms(1)]
  by (auto simp add: detect_changes_def get_sentinel2_image_def say_def Let_def)

lemma detect_changes_data:
  assumes "reference_date env arg w = (Inr t, w1)" "date_ranges t lb = Inr (bs, be, cs, ce)"
    "s2_scenes env region bs be 20 \<noteq> []" "s2_scenes env region cs ce 20 \<noteq> []"
  shows "fst (detect_changes cfg env region arg lb w) =
           Inr (Some (change_record cfg env
             (MedianClip (s2_scenes env region bs be 20) region)
             (MedianClip (s2_scenes env region cs ce 20) region) be ce))"
  using assms
  by (simp add: detect_changes_def get_sentinel2_image_def say_def Let_def)

lemma detect_changes_result:
  assumes "fst (detect_changes cfg env region arg lb w) = Inr (Some cr)"
  shows "\<exists>bi ci be ce. cr = change_record cfg env bi ci be ce"
  using assms
  by (auto simp add: detect_changes_def Let_def split_def
        split: sum.splits prod.splits if_splits)

text \<open>The sample dates, evaluated.\<close>

lemmas calendar_defs =
  toordinal_def ymd2ord_def days_before_year_def days_before_month_def is_leap_def
  DAYS_BEFORE_MONTH_def DAYS_IN_MONTH_def fromordinal_def ord2ymd_def
  DI400Y_def DI100Y_def DI4Y_def in_range_def MAXORDINAL_def Let_def

lemmas format_defs = strftime_ymd_def zero_pad_def str_nat.simps digit_char_def

lemma example_ordinal: "toordinal example_date = 739052"
  by (simp add: example_date_def calendar_defs)

lemma fmt_739052: "strftime_ymd example_date = ''2024-06-15''"
  by (simp add: example_date_def format_defs)

lemma fmt_739037: "strftime_ymd (fromordinal 739037) = ''2024-05-31''"
  by (simp add: calendar_defs format_defs)

lemma fmt_739022: "strftime_ymd (fromordinal 739022) = ''2024-05-16''"
  by (simp add: calendar_defs format_defs)

lemma fmt_739007: "strftime_ymd (fromordinal 739007) = ''2024-05-01''"
  by (simp add: calendar_defs format_defs)

lemma fmt_739042: "strftime_ymd (fromordinal 739042) = ''2024-06-05''"
  by (simp add: calendar_defs format_defs)

lemma fmt_739027: "strftime_ymd (fromordinal 739027) = ''2024-05-21''"
  by (simp add: calendar_defs format_defs)

lemma example_strptime: "strptime_ymd ''2024-06-15'' = Inr example_date"
  by (simp add: strptime_ymd_def build_date_def is_digit_def digit_val_def days_in_month_def
        DAYS_IN_MONTH_def is_leap_def example_date_def)

lemma example_valid: "valid_datetime example_date"
  by (simp add: valid_datetime_def example_date_def days_in_month_def DAYS_IN_MONTH_def)

section \<open>Alert extraction\<close>

text \<open>
  The loops append, for each surviving feature in turn, the alert built from its position
  and its area.
\<close>

lemma damage_loop_shape:
  "damage_loop cfg cr i fs acc =
     acc @ map (\<lambda>(j, f). damage_alert cr j f (spec_acres f))
             (filter (\<lambda>(j, f). spec_survives cfg f) (enumerate i fs))"
  by (induction fs arbitrary: i acc) (simp_all add: Let_def spec_acres_def spec_survives_def)

lemma recovery_loop_shape:
  "recovery_loop cfg cr i fs acc =
     acc @ map (\<lambda>(j, f). recovery_alert cr j f (spec_acres f))
             (filter (\<lambda>(j, f). spec_survives cfg f) (enumerate i fs))"
  by (induction fs arbitrary: i acc) (simp_all add: Let_def spec_acres_def spec_survives_def)

lemma extract_change_areas_shape:
  "fst (extract_change_areas cfg env cr region w) =
     map (\<lambda>(j, f). damage_alert cr j f (spec_acres f))
       (filter (\<lambda>(j, f). spec_survives cfg f)
          (enumerate 0 (returned_features env (damage_mask cr) region))) @
     map (\<lambda>(j, f). recovery_alert cr j f (spec_acres f))
       (filter (\<lambda>(j, f). spec_survives cfg f)
          (enumerate 0 (returned_features env (recovery_mask cr) region)))"
  by (simp add: extract_change_areas_def Let_def returned_features_def damage_loop_shape
        recovery_loop_shape split: option.splits)

lemma map_enum_snd:
  "map (\<lambda>(j, f). g f) (filter (\<lambda>(j, f). P f) (enumerate i fs)) = map g (filter P fs)"
  by (induction fs arbitrary: i) simp_all

lemma damage_loop_types:
  "list_all (\<lambda>a. alert_type a = ''vegetation_change'') (damage_loop cfg cr i fs [])"
  by (simp add: damage_loop_shape list_all_iff damage_alert_def split_def)

lemma recovery_loop_types:
  "list_all (\<lambda>a. alert_type a = ''recovery'') (recovery_loop cfg cr i fs [])"
  by (simp add: recovery_loop_shape list_all_iff recovery_alert_def split_def)

lemma extract_change_areas_concat:
  "fst (extract_change_areas cfg env cr region w) =
     damage_loop cfg cr 0 (returned_features env (damage_mask cr) region) [] @
     recovery_loop cfg cr 0 (returned_features env (recovery_mask cr) region) []"
  by (simp add: extract_change_areas_shape damage_loop_shape recovery_loop_shape)

section \<open>The summary and the main pipeline\<close>

text \<open>Sorting with \<^verbatim>\<open>reverse=True\<close>: descending, a permutation, and stable.\<close>

lemma sorted_reverse_sorted:
  "sorted_wrt (\<lambda>a b. key a \<ge> key b) (sorted_reverse key xs)"
proof -
  have "sorted (map key (sort_key key (rev xs)))" by simp
  then have "sorted_wrt (\<lambda>a b. key a \<le> key b) (sort_key key (rev xs))"
    by (simp add: sorted_wrt_map)
  then show ?thesis
    unfolding sorted_reverse_def by (simp add: sorted_wrt_rev)
qed

lemma sorted_reverse_mset: "mset (sorted_reverse key xs) = mset xs"
  by (simp add: sorted_reverse_def)

lemma sorted_reverse_stable:
  "filter (\<lambda>a. key a = k) (sorted_reverse key xs) = filter (\<lambda>a. key a = k) xs"
proof -
  have "filter (\<lambda>a. key a = k) (sort_key key (rev xs)) = filter (\<lambda>a. key a = k) (rev xs)"
    by (rule sort_key_stable)
  then show ?thesis
    unfolding sorted_reverse_def by (simp add: rev_filter [symmetric])
qed

lemma console_top_alerts:
  "console (foldl say_top_alert w xs) = console w @ map top_line xs"
  by (induction xs arbitrary: w) (simp_all add: say_top_alert_def say_def top_line_def)

lemma run_analysis_unfold:
  "run_analysis cfg env boundary_file w =
     (let w = say Rule (say Title (say Rule w));
          (ok, w) = initialize_ee env w
      in if \<not> ok then (Inr None, w)
         else
          (case load_reservation_boundary cfg env boundary_file (say LoadingBoundary w) of
             (Inl e, w) \<Rightarrow> (Inl e, w)
           | (Inr region, w) \<Rightarrow>
              (case detect_changes cfg env region NoDate 30 (say RunningDetection w) of
                 (Inl e, w) \<Rightarrow> (Inl e, w)
               | (Inr None, w) \<Rightarrow> (Inr None, say AnalysisFailed w)
               | (Inr (Some changes), w) \<Rightarrow> analysis_tail cfg env region changes w)))"
  unfolding run_analysis_def analysis_tail_def ..

lemma analysis_tail_result:
  "fst (analysis_tail cfg env region changes w) =
     Inr (Some (fst (extract_change_areas cfg env changes region (say ExtractingAreas w))))"
  by (simp add: analysis_tail_def Let_def split_def)

lemma analysis_tail_console:
  assumes "al = fst (extract_change_areas cfg env changes region (say ExtractingAreas w))"
  shows "\<exists>pre. console (snd (analysis_tail cfg env region changes w)) =
           pre @ (if al = [] then [] else TopAlerts # map top_line (top_alerts al))"
  unfolding assms
  by (simp add: analysis_tail_def Let_def split_def console_top_alerts say_def)

lemma run_analysis_success:
  assumes "fst (run_analysis cfg env boundary_file w) = Inr (Some al)"
  shows "\<exists>region changes w1.
           run_analysis cfg env boundary_file w = analysis_tail cfg env region changes w1"
  using assms unfolding run_analysis_unfold
  by (auto simp add: Let_def split: if_splits sum.splits option.splits prod.splits)

section \<open>The sample run, evaluated\<close>

lemma example_ranges_30:
  "date_ranges example_date 30 = Inr (''2024-05-01'', ''2024-05-16'', ''2024-05-31'', ''2024-06-15'')"
  using date_ranges_ok [of example_date 30]
  by (simp add: example_ordinal in_range_def MAXORDINAL_def fmt_739052 fmt_739037 fmt_739022
        fmt_739007)

lemma example_ranges_10:
  "date_ranges example_date 10 = Inr (''2024-05-21'', ''2024-06-05'', ''2024-05-31'', ''2024-06-15'')"
  using date_ranges_ok [of example_date 10]
  by (simp add: example_ordinal in_range_def MAXORDINAL_def fmt_739052 fmt_739037 fmt_739042
        fmt_739027)

lemma example_reference:
  "reference_date example_env (DateObj example_date) w = (Inr example_date, w)"
  "reference_date example_env (DateStr ''2024-06-15'') w = (Inr example_date, w)"
  "reference_date example_env NoDate w
     = (Inr example_date, w\<lparr>clock_reads := clock_reads w + 1\<rparr>)"
  by (simp_all add: reference_date_def example_strptime example_env_def)

lemma example_scenes:
  "s2_scenes example_env region ''2024-05-01'' ''2024-05-16'' 20 = [1]"
  "s2_scenes example_env region ''2024-05-31'' ''2024-06-15'' 20 = [2]"
  by (simp_all add: example_env_def)

lemma example_detect:
  "fst (detect_changes module_config example_env example_region (DateObj example_date) 30 w)
     = Inr (Some example_changes)"
  "fst (detect_changes module_config example_env example_region NoDate 30 w)
     = Inr (Some example_changes)"
  using detect_changes_data [OF example_reference(1) example_ranges_30,
      where region = example_region and w = w and cfg = module_config]
    detect_changes_data [OF example_reference(3) example_ranges_30,
      where region = example_region and w = w and cfg = module_config]
  by (simp_all add: example_scenes example_changes_def)

lemma example_returned:
  "returned_features example_env m region = example_features"
  by (simp add: returned_features_def example_env_def)

lemma example_survivors:
  "filter (\<lambda>f. area_sqm f * 0.000247105 \<ge> MIN_AREA_ACRES module_config) example_features
     = tl example_features"
  by (simp add: example_features_def module_config_def)

lemma round1_2: "round1 2 = 2"
  by (simp add: round1_def round_half_even_def Let_def)

lemma round1_20: "round1 20 = 20"
  by (simp add: round1_def round_half_even_def Let_def)

lemma round1_2001: "round1 (2001 / 100) = 20"
proof -
  have "\<lfloor>(2001 / 10 :: real)\<rfloor> = 200" by linarith
  then show ?thesis by (simp add: round1_def round_half_even_def Let_def)
qed

lemma example_date_of_changes: "current_date example_changes = ''2024-06-15''"
  by (simp add: example_changes_def change_record_def Let_def)

lemma example_alerts_eval:
  "example_alerts =
     [\<lparr>alert_id = ''damage_2'', alert_type = ''vegetation_change'', severity = ''medium'',
       lat = 47.8, lng = -94.8, area_acres = 2, date = ''2024-06-15'',
       description = FString ''Significant vegetation loss detected ('' 2 '' acres)''\<rparr>,
      \<lparr>alert_id = ''damage_3'', alert_type = ''vegetation_change'', severity = ''medium'',
       lat = 47.7, lng = -94.7, area_acres = 20, date = ''2024-06-15'',
       description = FString ''Significant vegetation loss detected ('' 20 '' acres)''\<rparr>,
      \<lparr>alert_id = ''damage_4'', alert_type = ''vegetation_change'', severity = ''high'',
       lat = 47.6, lng = -94.6, area_acres = 20, date = ''2024-06-15'',
       description = FString ''Significant vegetation loss detected ('' 20 '' acres)''\<rparr>,
      \<lparr>alert_id = ''recovery_2'', alert_type = ''recovery'', severity = ''positive'',
       lat = 47.8, lng = -94.8, area_acres = 2, date = ''2024-06-15'',
       description = FString ''Vegetation recovery observed ('' 2 '' acres)''\<rparr>,
      \<lparr>alert_id = ''recovery_3'', alert_type = ''recovery'', severity = ''positive'',
       lat = 47.7, lng = -94.7, area_acres = 20, date = ''2024-06-15'',
       description = FString ''Vegetation recovery observed ('' 20 '' acres)''\<rparr>,
      \<lparr>alert_id = ''recovery_4'', alert_type = ''recovery'', severity = ''positive'',
       lat = 47.6, lng = -94.6, area_acres = 20, date = ''2024-06-15'',
       description = FString ''Vegetation recovery observed ('' 20 '' acres)''\<rparr>]"
  unfolding example_alerts_def extract_change_areas_shape example_returned
  by (simp add: example_features_def spec_survives_def spec_acres_def module_config_def
        enumerate_eq_zip upt_rec damage_alert_def recovery_alert_def example_date_of_changes
        round1_2 round1_20 round1_2001 str_nat.simps digit_char_def)

section \<open>The claims\<close>

text \<open>
  C10. For every list of alerts, the document written by \<open>export_alerts_json\<close> has a
  count equal to the length of its alerts array, and that array is the list it was given,
  unchanged and in order.
\<close>

theorem export_count:
  "\<exists>doc. written (export_alerts_json env alert_list output_path w)
            = written w @ [(output_path, doc)]
       \<and> count doc = length (alerts doc) \<and> alerts doc = alert_list"
  by (simp add: export_alerts_json_def Let_def say_def)


end
